theory Spec2Isabelle
  imports Complex_Main
begin

section \<open>Data model\<close>

text \<open>
  The module \<^verbatim>\<open>examples/ghmm_em.py\<close> is Python 2 code: its classes set
  \<^verbatim>\<open>__metaclass__\<close>, \<^verbatim>\<open>map\<close> builds a list at once (its result is passed to
  \<^verbatim>\<open>np.array\<close>), \<^verbatim>\<open>map\<close> over two sequences of different lengths pads the shorter
  one with \<^verbatim>\<open>None\<close>, and a function defined in a class without \<^verbatim>\<open>@staticmethod\<close>
  is an unbound method when it is reached through the class. Floating-point numbers are idealised as real numbers. Every exception
  the code can raise is a value of \<open>error\<close>, and a function that can raise returns
  \<open>error + 'a\<close>, with \<open>Inl\<close> the exception.
\<close>

datatype error =
    NameError string
  | LinAlgError
  | NotImplementedError
  | ValueError
  | TypeError
  | FloatingPointError

text \<open>
  A numpy array of rank 0, 1 or 2, and the nested tuples and lists of arrays that
  the parameter tuples of the module are made of.
\<close>

datatype ndarray = Arr0 real | Arr1 "real list" | Arr2 "real list list"

datatype pyval = Array ndarray | Tuple "pyval list"

text \<open>
  A number in log space: the logarithm of a non-negative real, \<open>NegInf\<close> being
  \<^verbatim>\<open>-inf = log(0)\<close>.
\<close>

datatype lfloat = NegInf | Finite real

text \<open>\<^verbatim>\<open>map(f, xs)\<close> and \<^verbatim>\<open>map(f, xs, ys)\<close> of Python 2: the calls are made from left
  to right and the first exception ends the evaluation. With two sequences the
  shorter one is padded with \<^verbatim>\<open>None\<close>, on which none of the functions of this
  module is defined.\<close>

fun map_py :: "('a \<Rightarrow> error + 'b) \<Rightarrow> 'a list \<Rightarrow> error + 'b list" where
  "map_py f [] = Inr []"
| "map_py f (x # xs) =
     (case f x of
        Inl e \<Rightarrow> Inl e
      | Inr v \<Rightarrow> (case map_py f xs of Inl e \<Rightarrow> Inl e | Inr vs \<Rightarrow> Inr (v # vs)))"

fun map2_py :: "('a \<Rightarrow> 'b \<Rightarrow> error + 'c) \<Rightarrow> 'a list \<Rightarrow> 'b list \<Rightarrow> error + 'c list" where
  "map2_py f [] [] = Inr []"
| "map2_py f (x # xs) (y # ys) =
     (case f x y of
        Inl e \<Rightarrow> Inl e
      | Inr v \<Rightarrow> (case map2_py f xs ys of Inl e \<Rightarrow> Inl e | Inr vs \<Rightarrow> Inr (v # vs)))"
| "map2_py f [] (y # ys) = Inl TypeError"
| "map2_py f (x # xs) [] = Inl TypeError"

section \<open>The numpy operations the module calls\<close>

text \<open>
  numpy is a library, not part of the module. Its operations are modelled in exact
  real arithmetic on arrays of rank at most two, with numpy's broadcasting: the
  shape of the operand of lower rank is padded with ones on the left, and along
  each axis the two lengths must be equal or one of them must be one, in which
  case that operand is repeated along the axis.
\<close>

text \<open>Broadcasting along one axis: the pairs of items that an elementwise operation
  combines, or \<open>ValueError\<close> when the two lengths are neither equal nor one.\<close>

definition broadcast :: "'a list \<Rightarrow> 'b list \<Rightarrow> error + ('a \<times> 'b) list" where
  "broadcast xs ys =
     (if length xs = length ys then Inr (zip xs ys)
      else if length xs = 1 then Inr (map (\<lambda>y. (hd xs, y)) ys)
      else if length ys = 1 then Inr (map (\<lambda>x. (x, hd ys)) xs)
      else Inl ValueError)"

text \<open>An array as a list of rows, its shape padded with ones to rank two, and the
  number of its axes.\<close>

fun rows_of :: "ndarray \<Rightarrow> real list list" where
  "rows_of (Arr0 x) = [[x]]"
| "rows_of (Arr1 xs) = [xs]"
| "rows_of (Arr2 xss) = xss"

fun rank :: "ndarray \<Rightarrow> nat" where
  "rank (Arr0 x) = 0"
| "rank (Arr1 xs) = 1"
| "rank (Arr2 xss) = 2"

text \<open>The pairs of entries that an elementwise operation on two arrays combines,
  row by row.\<close>

definition pairs :: "ndarray \<Rightarrow> ndarray \<Rightarrow> error + (real \<times> real) list list" where
  "pairs a b =
     (case broadcast (rows_of a) (rows_of b) of
        Inl e \<Rightarrow> Inl e
      | Inr rs \<Rightarrow> map_py (\<lambda>(r1, r2). broadcast r1 r2) rs)"

text \<open>\<^verbatim>\<open>np.allclose(a, b)\<close> with the default tolerances \<^verbatim>\<open>rtol=1e-05, atol=1e-08\<close>:
  \<^verbatim>\<open>|a - b| <= atol + rtol * |b|\<close> for every pair of entries.\<close>

definition isclose :: "real \<Rightarrow> real \<Rightarrow> bool" where
  "isclose x y = (\<bar>x - y\<bar> \<le> 1 / 10 ^ 8 + 1 / 10 ^ 5 * \<bar>y\<bar>)"

definition allclose :: "ndarray \<Rightarrow> ndarray \<Rightarrow> error + bool" where
  "allclose a b =
     (case pairs a b of
        Inl e \<Rightarrow> Inl e
      | Inr ps \<Rightarrow> Inr (list_all (list_all (\<lambda>(x, y). isclose x y)) ps))"

text \<open>\<^verbatim>\<open>x * y\<close> on arrays, the result having the higher of the two ranks, and
  \<^verbatim>\<open>np.sum\<close>.\<close>

fun of_rows :: "nat \<Rightarrow> real list list \<Rightarrow> ndarray" where
  "of_rows 0 [[x]] = Arr0 x"
| "of_rows (Suc 0) [xs] = Arr1 xs"
| "of_rows n xss = Arr2 xss"

definition multiply :: "ndarray \<Rightarrow> ndarray \<Rightarrow> error + ndarray" where
  "multiply a b =
     (case pairs a b of
        Inl e \<Rightarrow> Inl e
      | Inr ps \<Rightarrow> Inr (of_rows (max (rank a) (rank b)) (map (map (\<lambda>(x, y). x * y)) ps)))"

fun np_sum :: "ndarray \<Rightarrow> real" where
  "np_sum (Arr0 x) = x"
| "np_sum (Arr1 xs) = sum_list xs"
| "np_sum (Arr2 xss) = sum_list (map sum_list xss)"

text \<open>
  \<^verbatim>\<open>np.log\<close> under the error state the module sets
  (\<^verbatim>\<open>np.seterr(divide='ignore', invalid='raise')\<close>): the logarithm of zero is
  \<^verbatim>\<open>-inf\<close>, the logarithm of a negative number raises.
\<close>

definition np_log :: "real \<Rightarrow> error + lfloat" where
  "np_log x = (if x > 0 then Inr (Finite (ln x)) else if x = 0 then Inr NegInf
               else Inl FloatingPointError)"

text \<open>Addition in log space: \<^verbatim>\<open>-inf\<close> plus anything finite or \<^verbatim>\<open>-inf\<close> is \<^verbatim>\<open>-inf\<close>.\<close>

fun lf_add :: "lfloat \<Rightarrow> lfloat \<Rightarrow> lfloat" where
  "lf_add (Finite x) (Finite y) = Finite (x + y)"
| "lf_add a b = NegInf"

text \<open>\<^verbatim>\<open>np.dot\<close> of a matrix and a vector and of two vectors, \<^verbatim>\<open>np.outer\<close>, and a
  scalar times a matrix.\<close>

definition dot :: "real list \<Rightarrow> real list \<Rightarrow> error + real" where
  "dot xs ys = (if length xs = length ys then Inr (sum_list (map2 (*) xs ys))
                else Inl ValueError)"

definition dot_mv :: "real list list \<Rightarrow> real list \<Rightarrow> error + real list" where
  "dot_mv m v = map_py (\<lambda>row. dot row v) m"

definition outer :: "real list \<Rightarrow> real list \<Rightarrow> real list list" where
  "outer xs ys = map (\<lambda>x. map (\<lambda>y. x * y) ys) xs"

definition scale :: "real \<Rightarrow> real list list \<Rightarrow> real list list" where
  "scale c m = map (map (\<lambda>x. c * x)) m"

subsection \<open>\<^verbatim>\<open>np.linalg\<close>\<close>

text \<open>
  Modelled from the spec: \<^verbatim>\<open>np.linalg.inv\<close>, \<^verbatim>\<open>np.linalg.solve\<close> and
  \<^verbatim>\<open>np.linalg.det\<close>, which the module reaches through \<^verbatim>\<open>autograd.numpy\<close> and which
  are not among the sources. The specification describes them by what they compute:
  \<^verbatim>\<open>Gaussian.eta\<close> returns \<open>(-1/2 Sigma^{-1}, Sigma^{-1} mu)\<close> and fails if
  \<open>Sigma\<close> is not invertible, and \<^verbatim>\<open>Gaussian.logZ\<close> computes
  \<open>-1/2 h^T J^{-1} h + 1/2 log |J|\<close> and fails if \<open>J\<close> is not invertible. The
  model is therefore the inverse, the solution and the determinant of exact
  arithmetic, with no rounding: it fails on the matrices that have no inverse and
  on no others. (The floating-point routines of the library can differ from it on
  matrices that rounding makes, or stops from being, singular.)

  They are computed by elimination on the first column: a row with a non-zero first
  entry is swapped to the top, the remaining rows are reduced to the Schur
  complement of that entry, and the inverse is assembled from the inverse of the
  complement. A square matrix of dimension \<open>n\<close> is read as a function of two indices
  below \<open>n\<close>. That \<open>linalg_inv\<close> returns the inverse where there is one, and fails
  where there is none, is proved below.
\<close>

definition swap_rows :: "nat \<Rightarrow> (nat \<Rightarrow> nat \<Rightarrow> real) \<Rightarrow> nat \<Rightarrow> nat \<Rightarrow> real" where
  "swap_rows p M = (\<lambda>i. if i = 0 then M p else if i = p then M 0 else M i)"

definition swap_cols :: "nat \<Rightarrow> (nat \<Rightarrow> nat \<Rightarrow> real) \<Rightarrow> nat \<Rightarrow> nat \<Rightarrow> real" where
  "swap_cols p N = (\<lambda>i j. N i (if j = 0 then p else if j = p then 0 else j))"

definition schur :: "(nat \<Rightarrow> nat \<Rightarrow> real) \<Rightarrow> nat \<Rightarrow> nat \<Rightarrow> real" where
  "schur M = (\<lambda>i j. M (Suc i) (Suc j) - M (Suc i) 0 * M 0 (Suc j) / M 0 0)"

definition block_inverse ::
  "nat \<Rightarrow> (nat \<Rightarrow> nat \<Rightarrow> real) \<Rightarrow> (nat \<Rightarrow> nat \<Rightarrow> real) \<Rightarrow> nat \<Rightarrow> nat \<Rightarrow> real" where
  "block_inverse n M T = (\<lambda>i j.
     case i of
       0 \<Rightarrow> (case j of
               0 \<Rightarrow> 1 / M 0 0
                    + (\<Sum>l<n. \<Sum>m<n. M 0 (Suc l) * T l m * M (Suc m) 0) / (M 0 0 * M 0 0)
             | Suc j' \<Rightarrow> - (\<Sum>l<n. M 0 (Suc l) * T l j') / M 0 0)
     | Suc i' \<Rightarrow> (case j of
               0 \<Rightarrow> - (\<Sum>m<n. T i' m * M (Suc m) 0) / M 0 0
             | Suc j' \<Rightarrow> T i' j'))"

fun inverse_fun :: "nat \<Rightarrow> (nat \<Rightarrow> nat \<Rightarrow> real) \<Rightarrow> (nat \<Rightarrow> nat \<Rightarrow> real) option" where
  "inverse_fun 0 M = Some (\<lambda>i j. 0)"
| "inverse_fun (Suc n) M =
     (case find (\<lambda>p. M p 0 \<noteq> 0) [0..<Suc n] of
        None \<Rightarrow> None
      | Some p \<Rightarrow>
          (case inverse_fun n (schur (swap_rows p M)) of
             None \<Rightarrow> None
           | Some T \<Rightarrow> Some (swap_cols p (block_inverse n (swap_rows p M) T))))"

fun det_fun :: "nat \<Rightarrow> (nat \<Rightarrow> nat \<Rightarrow> real) \<Rightarrow> real" where
  "det_fun 0 M = 1"
| "det_fun (Suc n) M =
     (case find (\<lambda>p. M p 0 \<noteq> 0) [0..<Suc n] of
        None \<Rightarrow> 0
      | Some p \<Rightarrow> (if p = 0 then 1 else - 1) * M p 0 * det_fun n (schur (swap_rows p M)))"

definition square :: "real list list \<Rightarrow> bool" where
  "square m = list_all (\<lambda>row. length row = length m) m"

definition entries :: "real list list \<Rightarrow> nat \<Rightarrow> nat \<Rightarrow> real" where
  "entries m = (\<lambda>i j. m ! i ! j)"

definition matrix_of :: "nat \<Rightarrow> (nat \<Rightarrow> nat \<Rightarrow> real) \<Rightarrow> real list list" where
  "matrix_of n M = map (\<lambda>i. map (\<lambda>j. M i j) [0..<n]) [0..<n]"

text \<open>Modelled from the spec: \<^verbatim>\<open>np.linalg.inv(m)\<close>, the inverse of \<open>m\<close>, and
  \<^verbatim>\<open>LinAlgError\<close> for a matrix that is not square or has no inverse.\<close>

definition linalg_inv :: "real list list \<Rightarrow> error + real list list" where
  "linalg_inv m =
     (if \<not> square m then Inl LinAlgError
      else (case inverse_fun (length m) (entries m) of
              None \<Rightarrow> Inl LinAlgError
            | Some N \<Rightarrow> Inr (matrix_of (length m) N)))"

text \<open>Modelled from the spec: \<^verbatim>\<open>np.linalg.solve(m, v)\<close> for a vector \<open>v\<close>, the
  inverse of \<open>m\<close> applied to \<open>v\<close>.\<close>

definition linalg_solve :: "real list list \<Rightarrow> real list \<Rightarrow> error + real list" where
  "linalg_solve m v =
     (if \<not> square m then Inl LinAlgError
      else if length v \<noteq> length m then Inl ValueError
      else (case linalg_inv m of Inl e \<Rightarrow> Inl e | Inr N \<Rightarrow> dot_mv N v))"

text \<open>Modelled from the spec: \<^verbatim>\<open>np.linalg.det(m)\<close>, the determinant of \<open>m\<close>.\<close>

definition linalg_det :: "real list list \<Rightarrow> error + real" where
  "linalg_det m =
     (if \<not> square m then Inl LinAlgError else Inr (det_fun (length m) (entries m)))"

text \<open>What an inverse is: the product of two matrices, the identity matrix, and the
  product of a matrix and a vector. \<open>inverse_on n M N\<close> says, entry by entry, that the
  products of \<open>M\<close> and \<open>N\<close> in both orders are the identity of dimension \<open>n\<close>.\<close>

definition matmul :: "real list list \<Rightarrow> real list list \<Rightarrow> real list list" where
  "matmul a b = map (\<lambda>row. map (\<lambda>j. \<Sum>k<length b. row ! k * b ! k ! j) [0..<length b]) a"

definition matvec :: "real list list \<Rightarrow> real list \<Rightarrow> real list" where
  "matvec m v = map (\<lambda>row. sum_list (map2 (*) row v)) m"

definition identity :: "nat \<Rightarrow> real list list" where
  "identity n = matrix_of n (\<lambda>i j. if i = j then 1 else 0)"

definition is_inverse :: "real list list \<Rightarrow> real list list \<Rightarrow> bool" where
  "is_inverse m n = (square m \<and> square n \<and> length n = length m \<and>
     matmul m n = identity (length m) \<and> matmul n m = identity (length m))"

definition invertible :: "real list list \<Rightarrow> bool" where
  "invertible m = (\<exists>n. is_inverse m n)"

definition kronecker :: "nat \<Rightarrow> nat \<Rightarrow> real" where
  "kronecker i j = (if i = j then 1 else 0)"

definition inverse_on :: "nat \<Rightarrow> (nat \<Rightarrow> nat \<Rightarrow> real) \<Rightarrow> (nat \<Rightarrow> nat \<Rightarrow> real) \<Rightarrow> bool" where
  "inverse_on n M N =
     (\<forall>i<n. \<forall>j<n. (\<Sum>k<n. M i k * N k j) = kronecker i j \<and>
                   (\<Sum>k<n. N i k * M k j) = kronecker i j)"

text \<open>The exchange of the indices \<open>0\<close> and \<open>p\<close>.\<close>

definition transposition :: "nat \<Rightarrow> nat \<Rightarrow> nat" where
  "transposition p i = (if i = 0 then p else if i = p then 0 else i)"

section \<open>Utilities of the module\<close>

subsection \<open>\<^verbatim>\<open>same\<close> and \<^verbatim>\<open>fixed_point\<close>\<close>

text \<open>
  What numpy makes of a value that is passed where an array is expected: a tuple of
  scalars is a vector and a tuple of vectors of one length is a matrix. A tuple
  whose items do not fit together, or that would be an array of rank three, which
  the model does not have, is \<open>ValueError\<close>.
\<close>

fun scalars :: "ndarray list \<Rightarrow> real list option" where
  "scalars [] = Some []"
| "scalars (Arr0 x # as) = (case scalars as of None \<Rightarrow> None | Some xs \<Rightarrow> Some (x # xs))"
| "scalars (a # as) = None"

fun vectors :: "ndarray list \<Rightarrow> real list list option" where
  "vectors [] = Some []"
| "vectors (Arr1 xs # as) = (case vectors as of None \<Rightarrow> None | Some xss \<Rightarrow> Some (xs # xss))"
| "vectors (a # as) = None"

definition stack :: "ndarray list \<Rightarrow> error + ndarray" where
  "stack as =
     (case scalars as of
        Some xs \<Rightarrow> Inr (Arr1 xs)
      | None \<Rightarrow>
          (case vectors as of
             None \<Rightarrow> Inl ValueError
           | Some xss \<Rightarrow>
               if list_all (\<lambda>xs. length xs = length (hd xss)) xss then Inr (Arr2 xss)
               else Inl ValueError))"

fun as_array :: "pyval \<Rightarrow> error + ndarray"
  and as_arrays :: "pyval list \<Rightarrow> error + ndarray list" where
  "as_array (Array a) = Inr a"
| "as_array (Tuple vs) = (case as_arrays vs of Inl e \<Rightarrow> Inl e | Inr as \<Rightarrow> stack as)"
| "as_arrays [] = Inr []"
| "as_arrays (v # vs) =
     (case as_array v of
        Inl e \<Rightarrow> Inl e
      | Inr a \<Rightarrow> (case as_arrays vs of Inl e \<Rightarrow> Inl e | Inr as \<Rightarrow> Inr (a # as)))"

text \<open>The items that iterating over a value yields: the items of a tuple, the rows
  of a matrix, the entries of a vector; an array of rank 0 cannot be iterated over.\<close>

fun items :: "pyval \<Rightarrow> error + pyval list" where
  "items (Tuple vs) = Inr vs"
| "items (Array (Arr2 xss)) = Inr (map (\<lambda>xs. Array (Arr1 xs)) xss)"
| "items (Array (Arr1 xs)) = Inr (map (\<lambda>x. Array (Arr0 x)) xs)"
| "items (Array (Arr0 x)) = Inl TypeError"

text \<open>
  \<^verbatim>\<open>
  def same(a, b):
      if isinstance(a, np.ndarray):
          return np.allclose(a, b)
      return all(map(same, a, b))
  \<close>
  Only \<open>a\<close> is tested: \<open>b\<close> is converted to an array by \<^verbatim>\<open>np.allclose\<close> in the
  first case and iterated over by \<^verbatim>\<open>map\<close> in the second. \<^verbatim>\<open>map\<close> calls \<^verbatim>\<open>same\<close> on
  every pair before \<^verbatim>\<open>all\<close> looks at the results, and pads the shorter sequence
  with \<^verbatim>\<open>None\<close>, on which \<^verbatim>\<open>same\<close> raises \<^verbatim>\<open>TypeError\<close>.
\<close>

fun same :: "pyval \<Rightarrow> pyval \<Rightarrow> error + bool"
  and same_list :: "pyval list \<Rightarrow> pyval list \<Rightarrow> error + bool list" where
  "same (Array a) b = (case as_array b of Inl e \<Rightarrow> Inl e | Inr b' \<Rightarrow> allclose a b')"
| "same (Tuple as) b =
     (case items b of
        Inl e \<Rightarrow> Inl e
      | Inr bs \<Rightarrow>
          (case same_list as bs of Inl e \<Rightarrow> Inl e | Inr rs \<Rightarrow> Inr (list_all id rs)))"
| "same_list [] [] = Inr []"
| "same_list (a # as) (b # bs) =
     (case same a b of
        Inl e \<Rightarrow> Inl e
      | Inr r \<Rightarrow> (case same_list as bs of Inl e \<Rightarrow> Inl e | Inr rs \<Rightarrow> Inr (r # rs)))"
| "same_list [] (b # bs) = Inl TypeError"
| "same_list (a # as) [] = Inl TypeError"



subsection \<open>\<^verbatim>\<open>normalize\<close>\<close>

text \<open>
  \<^verbatim>\<open>
  def normalize(a):
      def replace_zeros(a):
          return np.where(a > 0., a, 1.)
      return a / replace_zeros(a.sum(-1, keepdims=True))
  \<close>
  \<^verbatim>\<open>a.sum(-1, keepdims=True)\<close> sums along the last axis and keeps that axis with
  length one, so the division broadcasts the (replaced) sum of a row over the
  entries of that row. An array of rank 0 has no last axis.
\<close>

definition replace_zeros :: "real \<Rightarrow> real" where
  "replace_zeros s = (if s > 0 then s else 1)"

definition normalize_row :: "real list \<Rightarrow> real list" where
  "normalize_row row = map (\<lambda>x. x / replace_zeros (sum_list row)) row"

fun normalize_array :: "ndarray \<Rightarrow> error + ndarray" where
  "normalize_array (Arr0 x) = Inl ValueError"
| "normalize_array (Arr1 row) = Inr (Arr1 (normalize_row row))"
| "normalize_array (Arr2 rows) = Inr (Arr2 (map normalize_row rows))"

text \<open>The uniform distribution over the entries of a row.\<close>

definition uniform_row :: "real list \<Rightarrow> real list" where
  "uniform_row row = map (\<lambda>x. 1 / real (length row)) row"

subsection \<open>\<^verbatim>\<open>inner\<close>\<close>

text \<open>
  \<^verbatim>\<open>
  def inner(a, b):
      def contract(x, y):
          return np.sum(x * y)
      return sum(map(contract, a, b))
  \<close>
  The product of two tuples is a \<^verbatim>\<open>TypeError\<close>; with an array on one side, numpy
  converts the other operand.
\<close>

fun contract :: "pyval \<Rightarrow> pyval \<Rightarrow> error + real" where
  "contract (Tuple xs) (Tuple ys) = Inl TypeError"
| "contract x y =
     (case as_array x of
        Inl e \<Rightarrow> Inl e
      | Inr a \<Rightarrow>
          (case as_array y of
             Inl e \<Rightarrow> Inl e
           | Inr b \<Rightarrow> (case multiply a b of Inl e \<Rightarrow> Inl e | Inr z \<Rightarrow> Inr (np_sum z))))"

definition inner :: "pyval list \<Rightarrow> pyval list \<Rightarrow> error + real" where
  "inner a b = (case map2_py contract a b of Inl e \<Rightarrow> Inl e | Inr ts \<Rightarrow> Inr (sum_list ts))"

section \<open>Exponential families\<close>

text \<open>The capability an observation family provides: \<^verbatim>\<open>eta\<close>, \<^verbatim>\<open>statistic\<close> and
  \<^verbatim>\<open>logZ\<close>. A tuple of arrays is a list of values.\<close>

record expfam =
  obs_eta :: "pyval \<Rightarrow> error + pyval list"
  obs_statistic :: "pyval \<Rightarrow> error + pyval list"
  obs_logZ :: "pyval list \<Rightarrow> error + real"

subsection \<open>\<^verbatim>\<open>Gaussian\<close>\<close>

text \<open>
  \<^verbatim>\<open>
  def eta(theta):
      mu, Sigma = theta
      J = np.linalg.inv(Sigma)
      h = np.dot(J, mu)
      return -1./2*J, h
  \<close>
\<close>

definition Gaussian_eta :: "real list \<times> real list list \<Rightarrow> error + real list list \<times> real list" where
  "Gaussian_eta theta =
     (case theta of (mu, Sig) \<Rightarrow>
        (case linalg_inv Sig of
           Inl e \<Rightarrow> Inl e
         | Inr J \<Rightarrow> (case dot_mv J mu of
                       Inl e \<Rightarrow> Inl e
                     | Inr h \<Rightarrow> Inr (scale (- 1 / 2) J, h))))"

text \<open>
  \<^verbatim>\<open>
  def statistic(y):
      return np.outer(y,y), y
  \<close>
\<close>

definition Gaussian_statistic :: "real list \<Rightarrow> real list list \<times> real list" where
  "Gaussian_statistic y = (outer y y, y)"

text \<open>
  \<^verbatim>\<open>
  def logZ(eta):
      J, h = -2*eta[0], eta[1]
      return -1./2 * np.dot(h, np.linalg.solve(J, h)) \
          + 1./2 * np.log(np.linalg.det(J))
  \<close>
  The logarithm of a determinant that is not positive is \<^verbatim>\<open>-inf\<close> or invalid; no
  real number is returned then.
\<close>

definition Gaussian_logZ :: "real list list \<times> real list \<Rightarrow> error + real" where
  "Gaussian_logZ eta =
     (case eta of (E, h) \<Rightarrow>
        (case linalg_solve (scale (- 2) E) h of
           Inl e \<Rightarrow> Inl e
         | Inr x \<Rightarrow>
             (case dot h x of
                Inl e \<Rightarrow> Inl e
              | Inr q \<Rightarrow>
                  (case linalg_det (scale (- 2) E) of
                     Inl e \<Rightarrow> Inl e
                   | Inr d \<Rightarrow>
                       if d > 0 then Inr (- 1 / 2 * q + 1 / 2 * ln d)
                       else Inl FloatingPointError))))"

text \<open>The analytic log partition function of a Gaussian with mean \<open>mu\<close> and
  covariance \<open>Sig\<close> in dimension one, \<open>1/2 log (2 pi Sig) + 1/2 mu^2 / Sig\<close>.\<close>

definition analytic_logZ_1d :: "real \<Rightarrow> real \<Rightarrow> real" where
  "analytic_logZ_1d mu Sig = 1 / 2 * ln (2 * pi * Sig) + 1 / 2 * (mu * mu / Sig)"

text \<open>\<^verbatim>\<open>Gaussian.logZ(Gaussian.eta(theta))\<close>.\<close>

definition Gaussian_logZ_eta :: "real list \<times> real list list \<Rightarrow> error + real" where
  "Gaussian_logZ_eta theta =
     (case Gaussian_eta theta of Inl e \<Rightarrow> Inl e | Inr eta \<Rightarrow> Gaussian_logZ eta)"

text \<open>The Gaussian family as the collaborator that \<^verbatim>\<open>EM\<close> receives.\<close>

fun Gaussian_obs_eta :: "pyval \<Rightarrow> error + pyval list" where
  "Gaussian_obs_eta (Tuple [Array (Arr1 mu), Array (Arr2 Sig)]) =
     (case Gaussian_eta (mu, Sig) of
        Inl e \<Rightarrow> Inl e
      | Inr (E, h) \<Rightarrow> Inr [Array (Arr2 E), Array (Arr1 h)])"
| "Gaussian_obs_eta theta = Inl TypeError"

fun Gaussian_obs_statistic :: "pyval \<Rightarrow> error + pyval list" where
  "Gaussian_obs_statistic (Array (Arr1 y)) =
     (case Gaussian_statistic y of (S, y') \<Rightarrow> Inr [Array (Arr2 S), Array (Arr1 y')])"
| "Gaussian_obs_statistic y = Inl TypeError"

fun Gaussian_obs_logZ :: "pyval list \<Rightarrow> error + real" where
  "Gaussian_obs_logZ [Array (Arr2 E), Array (Arr1 h)] = Gaussian_logZ (E, h)"
| "Gaussian_obs_logZ eta = Inl TypeError"

definition Gaussian :: expfam where
  "Gaussian = \<lparr>obs_eta = Gaussian_obs_eta, obs_statistic = Gaussian_obs_statistic,
                obs_logZ = Gaussian_obs_logZ\<rparr>"

subsection \<open>\<^verbatim>\<open>NormalInverseWishart\<close>\<close>

text \<open>
  \<^verbatim>\<open>
  class NormalInverseWishart(ExpFam):
      ...
      def logZ(eta):
          A, b, c, d = eta
          raise NotImplementedError  # TODO
  \<close>
  The argument of the call is an instance of the class or a sequence of values.
  In the body, unpacking a sequence that does not have exactly four items raises
  \<^verbatim>\<open>ValueError\<close>, and unpacking an instance, which cannot be iterated over, raises
  \<^verbatim>\<open>TypeError\<close>.
\<close>

datatype argument = Instance | Sequence "pyval list"

fun NormalInverseWishart_logZ_body :: "argument \<Rightarrow> error + real" where
  "NormalInverseWishart_logZ_body (Sequence [A, b, c, d]) = Inl NotImplementedError"
| "NormalInverseWishart_logZ_body (Sequence eta) = Inl ValueError"
| "NormalInverseWishart_logZ_body Instance = Inl TypeError"

text \<open>
  The call \<^verbatim>\<open>NormalInverseWishart.logZ(eta)\<close>. The methods of this class are written
  without \<^verbatim>\<open>@staticmethod\<close>, which those of \<^verbatim>\<open>Gaussian\<close> have. In Python 2 the
  attribute \<^verbatim>\<open>NormalInverseWishart.logZ\<close> is therefore an unbound method: the call
  checks that its first argument is an instance of the class, and raises
  \<^verbatim>\<open>TypeError\<close> when it is not, before the body runs.
\<close>

fun NormalInverseWishart_logZ :: "argument \<Rightarrow> error + real" where
  "NormalInverseWishart_logZ Instance = NormalInverseWishart_logZ_body Instance"
| "NormalInverseWishart_logZ (Sequence eta) = Inl TypeError"

section \<open>Expectation-maximisation for the hidden Markov model\<close>

text \<open>
  The functions below are the inner functions of \<^verbatim>\<open>EM(init_params, data, obs)\<close>; the
  arguments \<^verbatim>\<open>data\<close> and \<^verbatim>\<open>obs\<close> of \<^verbatim>\<open>EM\<close> that they close over are passed explicitly.

  A free name of a function body that is neither a local nor a name of an enclosing
  function is looked up in the namespace of the module when the body runs, and
  \<^verbatim>\<open>NameError\<close> is raised if it is not bound. \<^verbatim>\<open>log_likelihoods\<close> uses the free name
  \<^verbatim>\<open>statistic\<close> and \<^verbatim>\<open>M_step\<close> the free name \<^verbatim>\<open>max_likelihood\<close>; the namespace is a
  parameter of the model, and \<open>module_namespace\<close> is the namespace of the module as
  it is written, in which neither name is bound.
\<close>

record namespace =
  ns_statistic :: "(pyval \<Rightarrow> error + pyval list) option"
  ns_max_likelihood :: "(pyval list \<Rightarrow> error + pyval) option"

definition module_namespace :: namespace where
  "module_namespace = \<lparr>ns_statistic = None, ns_max_likelihood = None\<rparr>"

type_synonym natural_params = "lfloat list \<times> lfloat list list \<times> pyval list list"

type_synonym expected_stats = "real list \<times> real list list \<times> pyval list list"

text \<open>The parameter tuple \<^verbatim>\<open>(pi, A, thetas)\<close>.\<close>

definition params :: "real list \<Rightarrow> real list list \<Rightarrow> pyval list \<Rightarrow> pyval" where
  "params pi0 A thetas = Tuple [Array (Arr1 pi0), Array (Arr2 A), Tuple thetas]"

text \<open>
  Modelled from the spec: \<^verbatim>\<open>logsumexp\<close> of \<^verbatim>\<open>autograd.scipy.misc\<close>, which is not among
  the sources. The specification describes it as the log-sum-exp, in which a row
  that is \<^verbatim>\<open>-inf\<close> throughout gives \<^verbatim>\<open>-inf\<close> and no exception; its numerical
  stability concerns floating-point numbers only.
\<close>

fun lf_exp :: "lfloat \<Rightarrow> real" where
  "lf_exp NegInf = 0"
| "lf_exp (Finite x) = exp x"

definition logsumexp :: "lfloat list \<Rightarrow> lfloat" where
  "logsumexp xs =
     (if sum_list (map lf_exp xs) > 0 then Finite (ln (sum_list (map lf_exp xs))) else NegInf)"

text \<open>\<^verbatim>\<open>log_alpha[:,None] + log_A\<close>, in which the column \<^verbatim>\<open>log_alpha[:,None]\<close> and
  the matrix \<^verbatim>\<open>log_A\<close> are broadcast along the rows and each entry of the column is
  added to a whole row; the reduction along \<^verbatim>\<open>axis=0\<close>; and the sum of two vectors,
  with broadcasting.\<close>

definition add_column :: "lfloat list \<Rightarrow> lfloat list list \<Rightarrow> error + lfloat list list" where
  "add_column v m =
     (case broadcast v m of
        Inl e \<Rightarrow> Inl e
      | Inr ps \<Rightarrow> Inr (map (\<lambda>(a, row). map (lf_add a) row) ps))"

definition logsumexp_axis0 :: "lfloat list list \<Rightarrow> lfloat list" where
  "logsumexp_axis0 m = map logsumexp (transpose m)"

definition add_vectors :: "lfloat list \<Rightarrow> lfloat list \<Rightarrow> error + lfloat list" where
  "add_vectors u v =
     (case broadcast u v of
        Inl e \<Rightarrow> Inl e
      | Inr ps \<Rightarrow> Inr (map (\<lambda>(x, y). lf_add x y) ps))"

text \<open>
  \<^verbatim>\<open>
  def log_likelihoods(y, etas):
      stat = statistic(y) + (1,)
      log_likelihood = lambda eta: inner(eta, stat)
      return np.array(map(log_likelihood, etas))
  \<close>
\<close>

definition log_likelihoods :: "namespace \<Rightarrow> pyval \<Rightarrow> pyval list list \<Rightarrow> error + real list" where
  "log_likelihoods ns y etas =
     (case ns_statistic ns of
        None \<Rightarrow> Inl (NameError ''statistic'')
      | Some statistic \<Rightarrow>
          (case statistic y of
             Inl e \<Rightarrow> Inl e
           | Inr s \<Rightarrow> map_py (\<lambda>eta. inner eta (s @ [Array (Arr0 1)])) etas))"

text \<open>
  \<^verbatim>\<open>
  def hmm_log_partition_function(natural_params, data):
      log_pi, log_A, etas = natural_params
      log_alpha = log_pi
      for y in data:
          log_alpha = logsumexp(log_alpha[:,None] + log_A, axis=0) \
              + log_likelihoods(y, etas)
      return logsumexp(log_alpha)
  \<close>
  \<open>forward\<close> is the loop over the data.
\<close>

fun forward ::
  "namespace \<Rightarrow> lfloat list list \<Rightarrow> pyval list list \<Rightarrow> lfloat list \<Rightarrow> pyval list
     \<Rightarrow> error + lfloat list" where
  "forward ns log_A etas log_alpha [] = Inr log_alpha"
| "forward ns log_A etas log_alpha (y # ys) =
     (case add_column log_alpha log_A of
        Inl e \<Rightarrow> Inl e
      | Inr m \<Rightarrow>
          (case log_likelihoods ns y etas of
             Inl e \<Rightarrow> Inl e
           | Inr ll \<Rightarrow>
               (case add_vectors (logsumexp_axis0 m) (map Finite ll) of
                  Inl e \<Rightarrow> Inl e
                | Inr log_alpha' \<Rightarrow> forward ns log_A etas log_alpha' ys)))"

definition hmm_log_partition_function ::
  "namespace \<Rightarrow> natural_params \<Rightarrow> pyval list \<Rightarrow> error + lfloat" where
  "hmm_log_partition_function ns natural_params data =
     (case natural_params of (log_pi, log_A, etas) \<Rightarrow>
        (case forward ns log_A etas log_pi data of
           Inl e \<Rightarrow> Inl e
         | Inr log_alpha \<Rightarrow> Inr (logsumexp log_alpha)))"

text \<open>
  Modelled from the spec: \<^verbatim>\<open>grad\<close> of \<^verbatim>\<open>autograd\<close>, which is not among the sources.
  \<^verbatim>\<open>grad(f)(x, data)\<close> evaluates \<open>f\<close> at \<open>x\<close>, so that an exception raised by \<open>f\<close>
  is raised by the call, and returns the gradient of \<open>f\<close> with respect to \<open>x\<close> at
  that point. The value of the gradient is the parameter \<open>dv\<close>.
\<close>

definition grad ::
  "(natural_params \<Rightarrow> pyval list \<Rightarrow> expected_stats) \<Rightarrow>
   (natural_params \<Rightarrow> pyval list \<Rightarrow> error + lfloat) \<Rightarrow>
   natural_params \<Rightarrow> pyval list \<Rightarrow> error + expected_stats" where
  "grad dv f x data = (case f x data of Inl e \<Rightarrow> Inl e | Inr v \<Rightarrow> Inr (dv x data))"

text \<open>
  \<^verbatim>\<open>
  def E_step(params, data):
      def obs_natparam(theta):
          return obs.eta(theta) + (-obs.logZ(obs.eta(theta)),)

      pi, A, thetas = params
      natural_params = np.log(pi), np.log(A), map(obs_natparam, thetas)
      return grad(hmm_log_partition_function)(natural_params, data)
  \<close>
\<close>

definition obs_natparam :: "expfam \<Rightarrow> pyval \<Rightarrow> error + pyval list" where
  "obs_natparam obs theta =
     (case obs_eta obs theta of
        Inl e \<Rightarrow> Inl e
      | Inr eta1 \<Rightarrow>
          (case obs_eta obs theta of
             Inl e \<Rightarrow> Inl e
           | Inr eta2 \<Rightarrow>
               (case obs_logZ obs eta2 of
                  Inl e \<Rightarrow> Inl e
                | Inr z \<Rightarrow> Inr (eta1 @ [Array (Arr0 (- z))]))))"

definition natural_parameters ::
  "expfam \<Rightarrow> real list \<Rightarrow> real list list \<Rightarrow> pyval list \<Rightarrow> error + natural_params" where
  "natural_parameters obs pi0 A thetas =
     (case map_py np_log pi0 of
        Inl e \<Rightarrow> Inl e
      | Inr log_pi \<Rightarrow>
          (case map_py (map_py np_log) A of
             Inl e \<Rightarrow> Inl e
           | Inr log_A \<Rightarrow>
               (case map_py (obs_natparam obs) thetas of
                  Inl e \<Rightarrow> Inl e
                | Inr etas \<Rightarrow> Inr (log_pi, log_A, etas))))"

fun E_step ::
  "namespace \<Rightarrow> (natural_params \<Rightarrow> pyval list \<Rightarrow> expected_stats) \<Rightarrow> expfam \<Rightarrow>
   pyval \<Rightarrow> pyval list \<Rightarrow> error + expected_stats" where
  "E_step ns dv obs (Tuple [Array (Arr1 pi0), Array (Arr2 A), Tuple thetas]) data =
     (case natural_parameters obs pi0 A thetas of
        Inl e \<Rightarrow> Inl e
      | Inr natural_params \<Rightarrow> grad dv (hmm_log_partition_function ns) natural_params data)"
| "E_step ns dv obs ps data = Inl TypeError"

text \<open>
  \<^verbatim>\<open>
  def M_step(expected_stats):
      E_init, E_trans, E_obs_statistics = expected_stats
      pi, A = normalize(E_init), normalize(E_trans)
      thetas = map(max_likelihood, E_obs_statistics)
      return pi, A, thetas
  \<close>
\<close>

definition M_step :: "namespace \<Rightarrow> expected_stats \<Rightarrow> error + pyval" where
  "M_step ns expected_stats =
     (case expected_stats of (E_init, E_trans, E_obs_statistics) \<Rightarrow>
        (case normalize_array (Arr1 E_init) of
           Inl e \<Rightarrow> Inl e
         | Inr pi' \<Rightarrow>
             (case normalize_array (Arr2 E_trans) of
                Inl e \<Rightarrow> Inl e
              | Inr A' \<Rightarrow>
                  (case ns_max_likelihood ns of
                     None \<Rightarrow> Inl (NameError ''max_likelihood'')
                   | Some max_likelihood \<Rightarrow>
                       (case map_py max_likelihood E_obs_statistics of
                          Inl e \<Rightarrow> Inl e
                        | Inr thetas \<Rightarrow> Inr (Tuple [Array pi', Array A', Tuple thetas]))))))"

text \<open>
  \<^verbatim>\<open>
  def EM(init_params, data, obs):
      def EM_update(params):
          return M_step(E_step(params, data))
      ...
      return fixed_point(EM_update, init_params)
  \<close>
\<close>

definition EM_update ::
  "namespace \<Rightarrow> (natural_params \<Rightarrow> pyval list \<Rightarrow> expected_stats) \<Rightarrow> expfam \<Rightarrow>
   pyval list \<Rightarrow> pyval \<Rightarrow> error + pyval" where
  "EM_update ns dv obs data ps =
     (case E_step ns dv obs ps data of Inl e \<Rightarrow> Inl e | Inr stats \<Rightarrow> M_step ns stats)"


text \<open>
  The brute-force sum that the forward recursion is meant to compute: the sum, over
  all sequences of hidden states \<open>z0, z1, ..., zT\<close>, of
  \<open>p z0 * A z0 z1 * w1 z1 * ... * A z(T-1) zT * wT zT\<close>, where \<open>p\<close> is the initial
  weight vector, \<open>A\<close> the transition weights and \<open>wt\<close> the emission weights of the
  states at observation \<open>t\<close>. \<open>forward_step\<close> is one step of the recursion on
  weights, and \<open>log_of\<close> the logarithm of a non-negative real.
\<close>

fun path_weight :: "real list list \<Rightarrow> real list list \<Rightarrow> nat \<Rightarrow> nat list \<Rightarrow> real" where
  "path_weight A [] z [] = 1"
| "path_weight A (w # ws) z (z' # zs) = A ! z ! z' * w ! z' * path_weight A ws z' zs"
| "path_weight A [] z (z' # zs) = 0"
| "path_weight A (w # ws) z [] = 0"

definition brute_force :: "real list \<Rightarrow> real list list \<Rightarrow> real list list \<Rightarrow> real" where
  "brute_force p A ws =
     (\<Sum>z0\<leftarrow>[0..<length p]. \<Sum>zs\<leftarrow>List.n_lists (length ws) [0..<length p].
        p ! z0 * path_weight A ws z0 zs)"

definition forward_step :: "real list list \<Rightarrow> real list \<Rightarrow> real list \<Rightarrow> real list" where
  "forward_step A alpha w =
     map (\<lambda>j. (\<Sum>i\<leftarrow>[0..<length alpha]. alpha ! i * A ! i ! j) * w ! j) [0..<length alpha]"

definition log_of :: "real \<Rightarrow> lfloat" where
  "log_of s = (if s > 0 then Finite (ln s) else NegInf)"

text \<open>The namespace of the module with \<^verbatim>\<open>statistic\<close> bound to the statistic of the
  Gaussian family, which the module as written does not do.\<close>

definition Gaussian_namespace :: namespace where
  "Gaussian_namespace =
     \<lparr>ns_statistic = Some Gaussian_obs_statistic, ns_max_likelihood = None\<rparr>"

text \<open>A gradient value for the closed examples below, where the gradient is never
  reached.\<close>

definition zero_gradient :: "natural_params \<Rightarrow> pyval list \<Rightarrow> expected_stats" where
  "zero_gradient x data = ([], [], [])"

section \<open>Properties of the utilities\<close>

lemma sum_list_divide_const: "sum_list (map (\<lambda>x. x / c) xs) = sum_list xs / (c::real)"
  by (induction xs) (simp_all add: add_divide_distrib)

text \<open>
  C4, as stated, fails: a row whose sum is not positive is divided by 1, so it comes
  back unchanged and is not the uniform distribution. The row \<open>[0, 0]\<close> is returned
  as \<open>[0, 0]\<close>, not as \<open>[1/2, 1/2]\<close>.
\<close>

theorem normalize_uniform_counterexample:
  "sum_list [0, 0 :: real] \<le> 0 \<and>
   normalize_array (Arr2 [[0, 0]]) = Inr (Arr2 [[0, 0]]) \<and>
   normalize_array (Arr2 [[0, 0]]) \<noteq> Inr (Arr2 [uniform_row [0, 0]])"
  by (simp add: normalize_row_def replace_zeros_def uniform_row_def)

text \<open>
  C4, amended: for every real matrix, \<^verbatim>\<open>normalize\<close> returns a matrix with the same
  number of rows; each row whose input sum is positive sums to 1 in the result, and
  each row whose input sum is not positive is returned unchanged.
\<close>

theorem normalize_rows:
  "\<exists>out. normalize_array (Arr2 rows) = Inr (Arr2 out) \<and> length out = length rows \<and>
     (\<forall>i < length rows.
        (sum_list (rows ! i) > 0 \<longrightarrow> sum_list (out ! i) = 1) \<and>
        (sum_list (rows ! i) \<le> 0 \<longrightarrow> out ! i = rows ! i))"
  by (simp add: normalize_row_def replace_zeros_def sum_list_divide_const)

theorem normalize_rows_witness:
  "normalize_array (Arr2 [[1, 3], [0, 0]]) = Inr (Arr2 [[1/4, 3/4], [0, 0]]) \<and>
   sum_list [1, 3 :: real] > 0 \<and> sum_list [1/4, 3/4 :: real] = 1 \<and>
   sum_list [0, 0 :: real] \<le> 0"
  using normalize_rows [of "[[1, 3], [0, 0]]"]
  by (simp add: normalize_row_def replace_zeros_def)

section \<open>The model of \<^verbatim>\<open>np.linalg.inv\<close> computes the inverse\<close>

lemma sum_kronecker_left: "j < n \<Longrightarrow> (\<Sum>k<n. kronecker j k * f k) = f j"
  by (simp add: kronecker_def if_distrib[of "\<lambda>x. x * _"] sum.delta cong: if_cong)

lemma sum_kronecker_right: "j < n \<Longrightarrow> (\<Sum>k<n. f k * kronecker k j) = f j"
  by (simp add: kronecker_def if_distrib[of "\<lambda>x. _ * x"] sum.delta' cong: if_cong)

text \<open>A row vector through \<open>T\<close> and then \<open>S\<close>, and a column vector through \<open>T\<close>
  and then \<open>S\<close>, come back unchanged when \<open>S\<close> and \<open>T\<close> are inverse.\<close>

lemma row_through_inverse:
  assumes "inverse_on n S T" "j < n"
  shows "(\<Sum>k<n. (\<Sum>l<n. u l * T l k) * S k j) = u j"
proof -
  have "(\<Sum>k<n. (\<Sum>l<n. u l * T l k) * S k j) = (\<Sum>k<n. \<Sum>l<n. u l * (T l k * S k j))"
    by (simp add: sum_distrib_right mult.assoc)
  also have "\<dots> = (\<Sum>l<n. \<Sum>k<n. u l * (T l k * S k j))"
    by (rule sum.swap)
  also have "\<dots> = (\<Sum>l<n. u l * (\<Sum>k<n. T l k * S k j))"
    by (simp add: sum_distrib_left)
  also have "\<dots> = (\<Sum>l<n. u l * kronecker l j)"
    using assms by (intro sum.cong refl) (simp add: inverse_on_def)
  also have "\<dots> = u j"
    using assms(2) by (rule sum_kronecker_right)
  finally show ?thesis .
qed

lemma column_through_inverse:
  assumes "inverse_on n S T" "i < n"
  shows "(\<Sum>k<n. S i k * (\<Sum>m<n. T k m * v m)) = v i"
proof -
  have "(\<Sum>k<n. S i k * (\<Sum>m<n. T k m * v m)) = (\<Sum>k<n. \<Sum>m<n. (S i k * T k m) * v m)"
    by (simp add: sum_distrib_left mult.assoc)
  also have "\<dots> = (\<Sum>m<n. \<Sum>k<n. (S i k * T k m) * v m)"
    by (rule sum.swap)
  also have "\<dots> = (\<Sum>m<n. (\<Sum>k<n. S i k * T k m) * v m)"
    by (simp add: sum_distrib_right)
  also have "\<dots> = (\<Sum>m<n. kronecker i m * v m)"
    using assms by (intro sum.cong refl) (simp add: inverse_on_def)
  also have "\<dots> = v i"
    using assms(2) by (rule sum_kronecker_left)
  finally show ?thesis .
qed


lemma sum_neg_div_right: "(\<Sum>k<n. f k * (- g k / a)) = - (\<Sum>k<n. f k * g k) / (a::real)"
  by (simp add: sum_negf[symmetric] sum_divide_distrib)

lemma sum_neg_div_left: "(\<Sum>k<n. (- g k / a) * f k) = - (\<Sum>k<n. g k * f k) / (a::real)"
  by (simp add: sum_negf[symmetric] sum_divide_distrib)

lemma block_inverse_correct:
  assumes a: "M 0 0 \<noteq> 0" and T: "inverse_on n (schur M) T"
  shows "inverse_on (Suc n) M (block_inverse n M T)"
proof -
  define a where "a = M 0 0"
  define r where "r = (\<lambda>l. M 0 (Suc l))"
  define c where "c = (\<lambda>m. M (Suc m) 0)"
  define D where "D = (\<lambda>i j. M (Suc i) (Suc j))"
  define S where "S = schur M"
  define Tc where "Tc = (\<lambda>k. \<Sum>m<n. T k m * c m)"
  define rT where "rT = (\<lambda>j. \<Sum>l<n. r l * T l j)"
  define RTC where "RTC = (\<Sum>l<n. \<Sum>m<n. r l * T l m * c m)"
  define X where "X = block_inverse n M T"
  have a0: "a \<noteq> 0" using a by (simp add: a_def)
  have TS: "inverse_on n S T" using T by (simp add: S_def)
  have D: "D i k = S i k + c i * r k / a" for i k
    by (simp add: D_def S_def schur_def c_def r_def a_def)
  have X00: "X 0 0 = 1 / a + RTC / (a * a)"
    by (simp add: X_def block_inverse_def a_def RTC_def r_def c_def)
  have X0S: "X 0 (Suc j) = - rT j / a" for j
    by (simp add: X_def block_inverse_def a_def rT_def r_def)
  have XS0: "X (Suc i) 0 = - Tc i / a" for i
    by (simp add: X_def block_inverse_def a_def Tc_def c_def)
  have XSS: "X (Suc i) (Suc j) = T i j" for i j
    by (simp add: X_def block_inverse_def)
  have G1: "(\<Sum>k<n. r k * Tc k) = RTC"
    by (simp add: Tc_def RTC_def sum_distrib_left mult.assoc)
  have G2: "(\<Sum>k<n. rT k * c k) = RTC"
  proof -
    have "(\<Sum>k<n. rT k * c k) = (\<Sum>k<n. \<Sum>l<n. r l * T l k * c k)"
      by (simp add: rT_def sum_distrib_right)
    also have "\<dots> = RTC" unfolding RTC_def by (rule sum.swap)
    finally show ?thesis .
  qed
  have G3: "(\<Sum>k<n. S i k * Tc k) = c i" if "i < n" for i
    unfolding Tc_def using TS that by (rule column_through_inverse)
  have G4: "(\<Sum>k<n. rT k * S k j) = r j" if "j < n" for j
    unfolding rT_def using TS that by (rule row_through_inverse)
  have G5: "(\<Sum>k<n. S i k * T k j) = kronecker i j" "(\<Sum>k<n. T i k * S k j) = kronecker i j"
    if "i < n" "j < n" for i j
    using TS that by (simp_all add: inverse_on_def)
  have H1: "(\<Sum>k<n. D i k * T k j) = (\<Sum>k<n. S i k * T k j) + c i * rT j / a" for i j
    by (simp add: D rT_def distrib_right sum.distrib sum_distrib_left sum_divide_distrib
        mult.assoc)
  have H2: "(\<Sum>k<n. D i k * Tc k) = (\<Sum>k<n. S i k * Tc k) + c i * RTC / a" for i
    by (simp add: D G1[symmetric] distrib_right sum.distrib sum_distrib_left sum_divide_distrib
        mult.assoc)
  have H3: "(\<Sum>k<n. T i k * D k j) = (\<Sum>k<n. T i k * S k j) + Tc i * r j / a" for i j
    by (simp add: D Tc_def distrib_left sum.distrib sum_distrib_right sum_divide_distrib
        mult.assoc)
  have H4: "(\<Sum>k<n. rT k * D k j) = (\<Sum>k<n. rT k * S k j) + RTC * r j / a" for j
    by (simp add: D G2[symmetric] distrib_left sum.distrib sum_distrib_right sum_divide_distrib
        mult.assoc)
  have M00: "M 0 0 = a" and M0S: "\<And>k. M 0 (Suc k) = r k" and MS0: "\<And>k. M (Suc k) 0 = c k"
    and MSS: "\<And>i k. M (Suc i) (Suc k) = D i k"
    by (simp_all add: a_def r_def c_def D_def)
  have left: "(\<Sum>k<Suc n. M i k * X k j) = kronecker i j" if "i < Suc n" "j < Suc n" for i j
  proof (cases i)
    case i0: 0
    show ?thesis
    proof (cases j)
      case 0
      with i0 a0 show ?thesis
        apply (simp only: sum.lessThan_Suc_shift M00 M0S X00 XS0 sum_neg_div_right G1)
        apply (simp add: kronecker_def field_simps rT_def Tc_def)
        done
    next
      case (Suc j')
      with i0 a0 show ?thesis
        apply (simp only: sum.lessThan_Suc_shift M00 M0S X0S XSS)
        apply (simp add: kronecker_def field_simps rT_def Tc_def)
        done
    qed
  next
    case (Suc i')
    then have i': "i' < n" using that by simp
    show ?thesis
    proof (cases j)
      case 0
      with Suc a0 i' show ?thesis
        apply (simp only: sum.lessThan_Suc_shift MS0 MSS X00 XS0 sum_neg_div_right H2 G3)
        apply (simp add: kronecker_def field_simps rT_def Tc_def)
        done
    next
      case j: (Suc j')
      then have j': "j' < n" using that by simp
      from Suc j a0 i' j' show ?thesis
        apply (simp only: sum.lessThan_Suc_shift MS0 MSS X0S XSS H1 G5)
        apply (simp add: kronecker_def field_simps rT_def Tc_def)
        done
    qed
  qed
  have right: "(\<Sum>k<Suc n. X i k * M k j) = kronecker i j" if "i < Suc n" "j < Suc n" for i j
  proof (cases i)
    case i0: 0
    show ?thesis
    proof (cases j)
      case 0
      with i0 a0 show ?thesis
        apply (simp only: sum.lessThan_Suc_shift M00 MS0 X00 X0S sum_neg_div_left G2)
        apply (simp add: kronecker_def field_simps rT_def Tc_def)
        done
    next
      case j: (Suc j')
      then have j': "j' < n" using that by simp
      from i0 j a0 j' show ?thesis
        apply (simp only: sum.lessThan_Suc_shift M0S MSS X00 X0S sum_neg_div_left H4 G4)
        apply (simp add: kronecker_def field_simps rT_def Tc_def)
        done
    qed
  next
    case (Suc i')
    then have i': "i' < n" using that by simp
    show ?thesis
    proof (cases j)
      case 0
      with Suc a0 show ?thesis
        apply (simp only: sum.lessThan_Suc_shift M00 MS0 XS0 XSS)
        apply (simp add: kronecker_def field_simps rT_def Tc_def)
        done
    next
      case j: (Suc j')
      then have j': "j' < n" using that by simp
      from Suc j a0 i' j' show ?thesis
        apply (simp only: sum.lessThan_Suc_shift M0S MSS XS0 XSS H3 G5)
        apply (simp add: kronecker_def field_simps rT_def Tc_def)
        done
    qed
  qed
  from left right show ?thesis
    unfolding inverse_on_def X_def by blast
qed


lemma schur_inverse:
  assumes a: "M 0 0 \<noteq> 0" and N: "inverse_on (Suc n) M N"
  shows "inverse_on n (schur M) (\<lambda>i j. N (Suc i) (Suc j))"
proof -
  define a where "a = M 0 0"
  define r where "r = (\<lambda>l. M 0 (Suc l))"
  define c where "c = (\<lambda>m. M (Suc m) 0)"
  define D where "D = (\<lambda>i j. M (Suc i) (Suc j))"
  define N' where "N' = (\<lambda>i j. N (Suc i) (Suc j))"
  have a0: "a \<noteq> 0" using a by (simp add: a_def)
  have S: "schur M i k = D i k - c i * r k / a" for i k
    by (simp add: D_def schur_def c_def r_def a_def)
  have MN: "(\<Sum>k<Suc n. M i k * N k j) = kronecker i j"
    and NM: "(\<Sum>k<Suc n. N i k * M k j) = kronecker i j" if "i < Suc n" "j < Suc n" for i j
    using N that by (simp_all add: inverse_on_def)
  have left: "(\<Sum>k<n. schur M i k * N' k j) = kronecker i j" if "i < n" "j < n" for i j
  proof -
    have e1: "c i * N 0 (Suc j) + (\<Sum>k<n. D i k * N' k j) = kronecker i j"
      using MN[of "Suc i" "Suc j"] that
      by (simp add: sum.lessThan_Suc_shift c_def D_def N'_def kronecker_def
          del: sum.lessThan_Suc)
    have e2: "a * N 0 (Suc j) + (\<Sum>k<n. r k * N' k j) = 0"
      using MN[of 0 "Suc j"] that
      by (simp add: sum.lessThan_Suc_shift a_def r_def N'_def kronecker_def
          del: sum.lessThan_Suc)
    from e2 a0 have e3: "N 0 (Suc j) = - (\<Sum>k<n. r k * N' k j) / a"
      by (simp add: field_simps)
    have "(\<Sum>k<n. schur M i k * N' k j)
        = (\<Sum>k<n. D i k * N' k j) - c i * (\<Sum>k<n. r k * N' k j) / a"
      by (simp add: S left_diff_distrib sum_subtractf sum_distrib_left sum_divide_distrib
          mult.assoc)
    also have "\<dots> = kronecker i j"
      using e1 e3 by simp
    finally show ?thesis .
  qed
  have right: "(\<Sum>k<n. N' i k * schur M k j) = kronecker i j" if "i < n" "j < n" for i j
  proof -
    have e1: "N (Suc i) 0 * r j + (\<Sum>k<n. N' i k * D k j) = kronecker i j"
      using NM[of "Suc i" "Suc j"] that
      by (simp add: sum.lessThan_Suc_shift r_def D_def N'_def kronecker_def
          del: sum.lessThan_Suc)
    have e2: "N (Suc i) 0 * a + (\<Sum>k<n. N' i k * c k) = 0"
      using NM[of "Suc i" 0] that
      by (simp add: sum.lessThan_Suc_shift a_def c_def N'_def kronecker_def
          del: sum.lessThan_Suc)
    from e2 a0 have e3: "N (Suc i) 0 = - (\<Sum>k<n. N' i k * c k) / a"
      by (simp add: field_simps)
    have "(\<Sum>k<n. N' i k * schur M k j)
        = (\<Sum>k<n. N' i k * D k j) - (\<Sum>k<n. N' i k * c k) * r j / a"
      by (simp add: S right_diff_distrib sum_subtractf sum_distrib_right sum_divide_distrib
          mult.assoc)
    also have "\<dots> = kronecker i j"
      using e1 e3 by simp
    finally show ?thesis .
  qed
  from left right show ?thesis
    unfolding inverse_on_def N'_def by blast
qed

lemma transposition_involution: "transposition p (transposition p i) = i"
  by (simp add: transposition_def)

lemma transposition_less: "p < n \<Longrightarrow> i < n \<Longrightarrow> transposition p i < n"
  by (simp add: transposition_def)

lemma transposition_eq_iff: "transposition p i = transposition p j \<longleftrightarrow> i = j"
  by (metis transposition_involution)

lemma sum_transposition:
  assumes "p < n"
  shows "(\<Sum>k<n. f (transposition p k)) = (\<Sum>k<n. f k)"
  by (rule sum.reindex_bij_witness[where i = "transposition p" and j = "transposition p"])
    (simp_all add: transposition_involution transposition_less assms)

lemma swap_rows_transposition: "swap_rows p M i = M (transposition p i)"
  by (simp add: swap_rows_def transposition_def)

lemma swap_cols_transposition: "swap_cols p N i j = N i (transposition p j)"
  by (simp add: swap_cols_def transposition_def)

lemma swap_rows_twice: "swap_rows p (swap_rows p M) = M"
  by (rule ext) (simp add: swap_rows_transposition transposition_involution)

lemma inverse_on_swap:
  assumes N: "inverse_on n M N" and p: "p < n"
  shows "inverse_on n (swap_rows p M) (swap_cols p N)"
proof -
  have left: "(\<Sum>k<n. swap_rows p M i k * swap_cols p N k j) = kronecker i j"
    if "i < n" "j < n" for i j
  proof -
    have "(\<Sum>k<n. M (transposition p i) k * N k (transposition p j))
        = kronecker (transposition p i) (transposition p j)"
      using N that p by (simp add: inverse_on_def transposition_less)
    then show ?thesis
      by (simp add: swap_rows_transposition swap_cols_transposition kronecker_def
          transposition_eq_iff)
  qed
  have right: "(\<Sum>k<n. swap_cols p N i k * swap_rows p M k j) = kronecker i j"
    if "i < n" "j < n" for i j
  proof -
    have "(\<Sum>k<n. swap_cols p N i k * swap_rows p M k j)
        = (\<Sum>k<n. N i (transposition p k) * M (transposition p k) j)"
      by (simp add: swap_rows_transposition swap_cols_transposition)
    also have "\<dots> = (\<Sum>k<n. N i k * M k j)"
      using p by (rule sum_transposition)
    also have "\<dots> = kronecker i j"
      using N that by (simp add: inverse_on_def)
    finally show ?thesis .
  qed
  from left right show ?thesis
    unfolding inverse_on_def by blast
qed

lemma zero_column_singular:
  assumes "\<forall>p<Suc n. M p 0 = 0"
  shows "\<not> inverse_on (Suc n) M N"
proof
  assume "inverse_on (Suc n) M N"
  then have "(\<Sum>k<Suc n. N 0 k * M k 0) = kronecker 0 0"
    unfolding inverse_on_def by blast
  moreover have "(\<Sum>k<Suc n. N 0 k * M k 0) = 0"
    using assms by (intro sum.neutral) simp
  ultimately show False by (simp add: kronecker_def)
qed

lemma find_pivot_Some:
  assumes "find (\<lambda>p. M p 0 \<noteq> (0::real)) [0..<Suc n] = Some p"
  shows "p < Suc n \<and> M p 0 \<noteq> 0"
proof -
  from assms obtain i where "i < length [0..<Suc n]" "M ([0..<Suc n] ! i) 0 \<noteq> 0"
    "p = [0..<Suc n] ! i"
    unfolding find_Some_iff by blast
  then show ?thesis
    by (metis length_upt diff_zero nth_upt add_0)
qed

lemma find_pivot_None:
  assumes "find (\<lambda>p. M p 0 \<noteq> (0::real)) [0..<Suc n] = None"
  shows "\<forall>p<Suc n. M p 0 = 0"
  using assms unfolding find_None_iff by (metis atLeastLessThan_iff set_upt zero_le)

lemma inverse_fun_Some: "inverse_fun n M = Some N \<Longrightarrow> inverse_on n M N"
proof (induction n arbitrary: M N)
  case 0
  then show ?case by (simp add: inverse_on_def)
next
  case (Suc n)
  from Suc.prems obtain p T where p: "find (\<lambda>p. M p 0 \<noteq> 0) [0..<Suc n] = Some p"
    and T: "inverse_fun n (schur (swap_rows p M)) = Some T"
    and N: "N = swap_cols p (block_inverse n (swap_rows p M) T)"
    by (auto split: option.splits)
  from find_pivot_Some[of M n p, OF p] have pn: "p < Suc n" and piv: "swap_rows p M 0 0 \<noteq> 0"
    by (simp_all add: swap_rows_def)
  from Suc.IH[OF T] have "inverse_on n (schur (swap_rows p M)) T" .
  with piv have "inverse_on (Suc n) (swap_rows p M) (block_inverse n (swap_rows p M) T)"
    by (rule block_inverse_correct)
  from inverse_on_swap[OF this pn] show ?case
    by (simp add: swap_rows_twice N)
qed

lemma inverse_fun_None: "inverse_fun n M = None \<Longrightarrow> \<not> inverse_on n M N"
proof (induction n arbitrary: M N)
  case 0
  then show ?case by simp
next
  case (Suc n)
  show ?case
  proof (cases "find (\<lambda>p. M p 0 \<noteq> 0) [0..<Suc n]")
    case None
    from find_pivot_None[of M n, OF this] show ?thesis by (rule zero_column_singular)
  next
    case (Some p)
    with Suc.prems have T: "inverse_fun n (schur (swap_rows p M)) = None"
      by (auto split: option.splits)
    from find_pivot_Some[of M n p, OF Some] have pn: "p < Suc n" and piv: "swap_rows p M 0 0 \<noteq> 0"
      by (simp_all add: swap_rows_def)
    show ?thesis
    proof
      assume "inverse_on (Suc n) M N"
      from inverse_on_swap[OF this pn]
      have "inverse_on (Suc n) (swap_rows p M) (swap_cols p N)" .
      with piv have "inverse_on n (schur (swap_rows p M))
          (\<lambda>i j. swap_cols p N (Suc i) (Suc j))"
        by (rule schur_inverse)
      with Suc.IH[OF T] show False by blast
    qed
  qed
qed


lemma length_matrix_of: "length (matrix_of n M) = n"
  by (simp add: matrix_of_def)

lemma nth_matrix_of: "i < n \<Longrightarrow> matrix_of n M ! i = map (M i) [0..<n]"
  by (simp add: matrix_of_def)

lemma square_matrix_of: "square (matrix_of n M)"
  by (simp add: square_def matrix_of_def list_all_iff)

lemma matrix_of_entries: "square m \<Longrightarrow> matrix_of (length m) (entries m) = m"
  by (auto simp: square_def list_all_iff matrix_of_def entries_def intro!: nth_equalityI)

lemma matrix_of_eq_iff:
  "matrix_of n F = matrix_of n G \<longleftrightarrow> (\<forall>i<n. \<forall>j<n. F i j = G i j)"
proof
  assume eq: "matrix_of n F = matrix_of n G"
  show "\<forall>i<n. \<forall>j<n. F i j = G i j"
  proof (intro allI impI)
    fix i j assume "i < n" "j < n"
    then have "F i j = matrix_of n F ! i ! j" "G i j = matrix_of n G ! i ! j"
      by (simp_all add: nth_matrix_of)
    with eq show "F i j = G i j" by simp
  qed
next
  assume "\<forall>i<n. \<forall>j<n. F i j = G i j"
  then show "matrix_of n F = matrix_of n G"
    by (simp add: matrix_of_def)
qed

lemma matmul_matrix_of:
  "matmul (matrix_of n A) (matrix_of n B) = matrix_of n (\<lambda>i j. \<Sum>k<n. A i k * B k j)"
  by (simp add: matmul_def matrix_of_def)

lemma is_inverse_matrix_of:
  "is_inverse (matrix_of n A) (matrix_of n B) \<longleftrightarrow> inverse_on n A B"
  unfolding is_inverse_def matmul_matrix_of identity_def length_matrix_of matrix_of_eq_iff
    inverse_on_def kronecker_def
  by (auto simp: square_matrix_of)

lemma is_inverse_entries:
  assumes "is_inverse m J"
  shows "inverse_on (length m) (entries m) (entries J)"
proof -
  from assms have "square m" "square J" "length J = length m"
    by (simp_all add: is_inverse_def)
  then have "m = matrix_of (length m) (entries m)" "J = matrix_of (length m) (entries J)"
    using matrix_of_entries[of m] matrix_of_entries[of J] by simp_all
  with assms is_inverse_matrix_of[of "length m" "entries m" "entries J"] show ?thesis
    by simp
qed

lemma linalg_inv_invertible:
  assumes "invertible m"
  shows "\<exists>J. linalg_inv m = Inr J \<and> is_inverse m J"
proof -
  from assms obtain J0 where J0: "is_inverse m J0" by (auto simp: invertible_def)
  then have sq: "square m" by (simp add: is_inverse_def)
  from is_inverse_entries[OF J0] inverse_fun_None
  obtain N where N: "inverse_fun (length m) (entries m) = Some N"
    by (cases "inverse_fun (length m) (entries m)") blast+
  from inverse_fun_Some[OF N]
  have "is_inverse (matrix_of (length m) (entries m)) (matrix_of (length m) N)"
    by (simp add: is_inverse_matrix_of)
  with sq have "is_inverse m (matrix_of (length m) N)"
    by (simp add: matrix_of_entries)
  with sq N show ?thesis
    by (simp add: linalg_inv_def)
qed

lemma linalg_inv_singular:
  assumes "\<not> invertible m"
  shows "linalg_inv m = Inl LinAlgError"
proof (cases "square m")
  case False
  then show ?thesis by (simp add: linalg_inv_def)
next
  case True
  show ?thesis
  proof (cases "inverse_fun (length m) (entries m)")
    case None
    with True show ?thesis by (simp add: linalg_inv_def)
  next
    case (Some N)
    from inverse_fun_Some[OF Some]
    have "is_inverse (matrix_of (length m) (entries m)) (matrix_of (length m) N)"
      by (simp add: is_inverse_matrix_of)
    with True have "is_inverse m (matrix_of (length m) N)"
      by (simp add: matrix_of_entries)
    with assms show ?thesis by (auto simp: invertible_def)
  qed
qed

lemma dot_mv_rows:
  assumes "list_all (\<lambda>row. length row = length v) m"
  shows "dot_mv m v = Inr (map (\<lambda>row. sum_list (map2 (*) row v)) m)"
  using assms unfolding dot_mv_def
  by (induction m) (simp_all add: dot_def)

lemma inverse_on_unique:
  assumes J: "inverse_on n M J" and K: "inverse_on n M K" and ij: "i < n" "j < n"
  shows "J i j = K i j"
proof -
  from K have "inverse_on n K M" by (auto simp: inverse_on_def)
  from row_through_inverse[OF this ij(2), of "J i"]
  have "J i j = (\<Sum>l<n. (\<Sum>k<n. J i k * M k l) * K l j)" by simp
  also have "\<dots> = (\<Sum>l<n. kronecker i l * K l j)"
    using J ij by (intro sum.cong refl) (simp add: inverse_on_def)
  also have "\<dots> = K i j"
    using ij(1) by (rule sum_kronecker_left)
  finally show ?thesis .
qed

lemma is_inverse_unique:
  assumes "is_inverse m J" "is_inverse m K"
  shows "J = K"
proof -
  from assms have sq: "square J" "square K" "length J = length m" "length K = length m"
    by (simp_all add: is_inverse_def)
  from is_inverse_entries[OF assms(1)] is_inverse_entries[OF assms(2)]
  have "\<forall>i<length m. \<forall>j<length m. entries J i j = entries K i j"
    by (blast intro: inverse_on_unique)
  then have "matrix_of (length m) (entries J) = matrix_of (length m) (entries K)"
    by (simp only: matrix_of_eq_iff)
  with sq matrix_of_entries[of J] matrix_of_entries[of K] show ?thesis by simp
qed

section \<open>Properties of the exponential families\<close>

lemmas linalg_eval =
  linalg_inv_def linalg_solve_def linalg_det_def square_def entries_def matrix_of_def
  swap_rows_def swap_cols_def block_inverse_def schur_def dot_mv_def dot_def scale_def

lemma identity2: "identity (Suc (Suc 0)) = [[1, 0], [0, 1]]"
  by (simp add: identity_def matrix_of_def)

lemma is_inverse_identity2: "is_inverse [[1, 0], [0, 1]] [[1, 0], [0, 1]]"
  by (simp add: is_inverse_def square_def matmul_def identity2 numeral_2_eq_2)

text \<open>
  C6, as stated, fails: the identity matrix of dimension two is invertible, and with
  a mean of three entries \<^verbatim>\<open>Gaussian.eta\<close> returns no tuple but raises the
  \<^verbatim>\<open>ValueError\<close> of \<^verbatim>\<open>np.dot\<close>, which is not the singular-covariance error.
\<close>

theorem Gaussian_eta_dimension_counterexample:
  "invertible [[1, 0], [0, 1]] \<and>
   Gaussian_eta ([1, 2, 3], [[1, 0], [0, 1]]) = Inl ValueError"
proof -
  have "invertible [[1, 0], [0, 1]]"
    using is_inverse_identity2 by (auto simp: invertible_def)
  moreover have "linalg_inv [[1, 0], [0, 1]] = Inr [[1, 0], [0, 1]]"
    using linalg_inv_invertible[OF \<open>invertible [[1, 0], [0, 1]]\<close>]
      is_inverse_unique[OF _ is_inverse_identity2]
    by auto
  then have "Gaussian_eta ([1, 2, 3], [[1, 0], [0, 1]]) = Inl ValueError"
    by (simp add: Gaussian_eta_def dot_mv_def dot_def)
  ultimately show ?thesis by simp
qed

text \<open>
  C6, amended: for every mean \<open>mu\<close> and covariance \<open>Sigma\<close> with as many rows as \<open>mu\<close>
  has entries, \<^verbatim>\<open>Gaussian.eta\<close> returns \<open>(-1/2 J, J mu)\<close> for the inverse \<open>J\<close> of
  \<open>Sigma\<close> (there is at most one) when \<open>Sigma\<close> is invertible, and raises the
  \<^verbatim>\<open>LinAlgError\<close> of \<^verbatim>\<open>np.linalg.inv\<close>, returning nothing, when \<open>Sigma\<close> is not
  invertible; so it fails with that error exactly when \<open>Sigma\<close> is not invertible.
\<close>

theorem Gaussian_eta_inverse:
  assumes "length mu = length Sig"
  shows "(\<forall>J. is_inverse Sig J \<longrightarrow>
            Gaussian_eta (mu, Sig) = Inr (scale (- 1 / 2) J, matvec J mu)) \<and>
         (\<not> invertible Sig \<longrightarrow> Gaussian_eta (mu, Sig) = Inl LinAlgError)"
proof (intro conjI impI allI)
  fix J assume J: "is_inverse Sig J"
  then have "invertible Sig" by (auto simp: invertible_def)
  from linalg_inv_invertible[OF this] obtain J'
    where J': "linalg_inv Sig = Inr J'" "is_inverse Sig J'" by blast
  from is_inverse_unique[OF J'(2) J] J'(1) have inv: "linalg_inv Sig = Inr J" by simp
  from J have "square J" "length J = length Sig" by (simp_all add: is_inverse_def)
  then have "list_all (\<lambda>row. length row = length Sig) J"
    by (simp add: square_def)
  with assms have "list_all (\<lambda>row. length row = length mu) J" by simp
  from dot_mv_rows[OF this] inv
  show "Gaussian_eta (mu, Sig) = Inr (scale (- 1 / 2) J, matvec J mu)"
    by (simp add: Gaussian_eta_def matvec_def)
next
  assume "\<not> invertible Sig"
  from linalg_inv_singular[OF this] show "Gaussian_eta (mu, Sig) = Inl LinAlgError"
    by (simp add: Gaussian_eta_def)
qed

lemma identity1: "identity (Suc 0) = [[1]]"
  by (simp add: identity_def matrix_of_def)

theorem Gaussian_eta_inverse_witness:
  "is_inverse [[2]] [[1 / 2]] \<and>
   Gaussian_eta ([3], [[2]]) = Inr ([[- 1 / 4]], [3 / 2]) \<and>
   \<not> invertible [[0]] \<and>
   Gaussian_eta ([3], [[0]]) = Inl LinAlgError"
proof -
  have inv: "is_inverse [[2]] [[1 / 2]]"
    by (simp add: is_inverse_def square_def matmul_def identity1)
  have sing: "\<not> invertible [[0]]"
    by (auto simp: invertible_def is_inverse_def square_def matmul_def identity1)
  from Gaussian_eta_inverse[of "[3]" "[[2]]"] inv
  have "Gaussian_eta ([3], [[2]]) = Inr ([[- 1 / 4]], [3 / 2])"
    by (simp add: scale_def matvec_def)
  moreover from Gaussian_eta_inverse[of "[3]" "[[0]]"] sing
  have "Gaussian_eta ([3], [[0]]) = Inl LinAlgError" by simp
  ultimately show ?thesis using inv sing by simp
qed

text \<open>
  C7: the call \<^verbatim>\<open>NormalInverseWishart.logZ(eta)\<close> raises \<^verbatim>\<open>TypeError\<close> for every
  argument, a four-component \<open>eta\<close> included, and so never the
  \<^verbatim>\<open>NotImplementedError\<close> that the body would raise for such an \<open>eta\<close>; it returns
  a scalar for no argument.
\<close>

theorem NormalInverseWishart_logZ_unbound_method:
  "(\<forall>arg. NormalInverseWishart_logZ arg = Inl TypeError) \<and>
   NormalInverseWishart_logZ
     (Sequence [Array (Arr2 [[1]]), Array (Arr1 [0]), Array (Arr0 1), Array (Arr0 1)])
   = Inl TypeError \<and>
   NormalInverseWishart_logZ_body
     (Sequence [Array (Arr2 [[1]]), Array (Arr1 [0]), Array (Arr0 1), Array (Arr0 1)])
   = Inl NotImplementedError"
proof -
  have "NormalInverseWishart_logZ arg = Inl TypeError" for arg
    by (cases arg) simp_all
  then show ?thesis by simp
qed

text \<open>
  C5: at \<open>mu = [1]\<close>, \<open>Sigma = [[1]]\<close> the code returns \<open>-1/2\<close>, where the analytic
  log partition function is \<open>1/2 log (2 pi) + 1/2\<close>.
\<close>

theorem Gaussian_logZ_eta_sign:
  "Gaussian_logZ_eta ([1], [[1]]) = Inr (- 1 / 2) \<and>
   analytic_logZ_1d 1 1 = 1 / 2 * ln (2 * pi) + 1 / 2 \<and>
   - 1 / 2 < analytic_logZ_1d 1 1"
proof -
  have "ln (2 * pi) > 0"
    using pi_ge_two by (intro ln_gt_zero) simp
  then have gap: "- 1 / 2 < 1 / 2 * ln (2 * pi) + 1 / 2"
    by linarith
  have code: "Gaussian_logZ_eta ([1], [[1]]) = Inr (- 1 / 2)"
    by (simp add: Gaussian_logZ_eta_def Gaussian_eta_def Gaussian_logZ_def linalg_eval)
  have analytic: "analytic_logZ_1d 1 1 = 1 / 2 * ln (2 * pi) + 1 / 2"
    by (simp add: analytic_logZ_1d_def)
  from code analytic gap show ?thesis
    by (simp only: simp_thms)
qed

section \<open>The forward recursion where \<^verbatim>\<open>statistic\<close> is bound\<close>

text \<open>
  In a namespace in which the log-likelihoods of the observations can be evaluated
  (the module as written is not one), \<^verbatim>\<open>hmm_log_partition_function\<close> returns the
  logarithm of the brute-force sum over the hidden-state sequences, and \<^verbatim>\<open>-inf\<close>
  when that sum is zero. The sequences start with the state \<open>z0\<close> drawn from
  \<^verbatim>\<open>pi\<close>: the loop applies the transition before each observation, the first
  included.
\<close>

lemma sum_list_concat_map:
  "sum_list (concat (map f xs)) = (\<Sum>x\<leftarrow>xs. sum_list (f x) :: real)"
  by (induction xs) simp_all

lemma sum_list_swap:
  "(\<Sum>x\<leftarrow>xs. \<Sum>y\<leftarrow>ys. f x y) = (\<Sum>y\<leftarrow>ys. \<Sum>x\<leftarrow>xs. f x y :: real)"
  by (induction xs) (simp_all add: sum_list_addf)

lemma sum_list_n_lists_Suc:
  "(\<Sum>zs\<leftarrow>List.n_lists (Suc n) xs. f zs)
   = (\<Sum>ys\<leftarrow>List.n_lists n xs. \<Sum>y\<leftarrow>xs. f (y # ys) :: real)"
  by (simp add: map_concat sum_list_concat_map comp_def)

lemma pull_out:
  "(\<Sum>x\<leftarrow>xs. f x * (g x * c * d)) = (\<Sum>x\<leftarrow>xs. f x * g x) * c * (d::real)"
  by (induction xs) (simp_all add: algebra_simps)

lemma brute_force_step:
  assumes "length (forward_step A p w) = length p"
  shows "brute_force p A (w # ws) = brute_force (forward_step A p w) A ws"
proof -
  let ?N = "length p"
  let ?P = "List.n_lists (length ws) [0..<?N]"
  have "brute_force p A (w # ws)
      = (\<Sum>z0\<leftarrow>[0..<?N]. \<Sum>zs\<leftarrow>?P. \<Sum>z\<leftarrow>[0..<?N].
            p ! z0 * (A ! z0 ! z * w ! z * path_weight A ws z zs))"
    by (simp add: brute_force_def sum_list_n_lists_Suc del: n_lists.simps)
  also have "\<dots> = (\<Sum>zs\<leftarrow>?P. \<Sum>z0\<leftarrow>[0..<?N]. \<Sum>z\<leftarrow>[0..<?N].
            p ! z0 * (A ! z0 ! z * w ! z * path_weight A ws z zs))"
    by (rule sum_list_swap)
  also have "\<dots> = (\<Sum>zs\<leftarrow>?P. \<Sum>z\<leftarrow>[0..<?N]. \<Sum>z0\<leftarrow>[0..<?N].
            p ! z0 * (A ! z0 ! z * w ! z * path_weight A ws z zs))"
    by (intro arg_cong[where f = sum_list] map_cong refl sum_list_swap)
  also have "\<dots> = (\<Sum>z\<leftarrow>[0..<?N]. \<Sum>zs\<leftarrow>?P. \<Sum>z0\<leftarrow>[0..<?N].
            p ! z0 * (A ! z0 ! z * w ! z * path_weight A ws z zs))"
    by (rule sum_list_swap)
  also have "\<dots> = (\<Sum>z\<leftarrow>[0..<?N]. \<Sum>zs\<leftarrow>?P.
            (\<Sum>z0\<leftarrow>[0..<?N]. p ! z0 * A ! z0 ! z) * w ! z * path_weight A ws z zs)"
    by (intro arg_cong[where f = sum_list] map_cong refl pull_out)
  also have "\<dots> = (\<Sum>z\<leftarrow>[0..<?N]. \<Sum>zs\<leftarrow>?P.
            forward_step A p w ! z * path_weight A ws z zs)"
    by (intro arg_cong[where f = sum_list] map_cong refl) (simp add: forward_step_def)
  also have "\<dots> = brute_force (forward_step A p w) A ws"
    using assms by (simp add: brute_force_def)
  finally show ?thesis .
qed


lemma lf_exp_nonneg: "0 \<le> lf_exp x"
  by (cases x) simp_all

lemma lf_exp_add: "lf_exp (lf_add a b) = lf_exp a * lf_exp b"
  by (cases a; cases b) (simp_all add: exp_add)

lemma lf_exp_logsumexp: "lf_exp (logsumexp xs) = sum_list (map lf_exp xs)"
proof -
  have "0 \<le> sum_list (map lf_exp xs)"
    by (rule sum_list_nonneg) (auto simp: lf_exp_nonneg)
  then show ?thesis
    by (auto simp: logsumexp_def)
qed

lemma forward_code_step:
  assumes N: "length log_alpha = N" "length log_A = N"
    "list_all (\<lambda>row. length row = N) log_A" "length ll = N"
  shows "\<exists>m out. add_column log_alpha log_A = Inr m \<and>
           add_vectors (logsumexp_axis0 m) (map Finite ll) = Inr out \<and> length out = N \<and>
           map lf_exp out
             = forward_step (map (map lf_exp) log_A) (map lf_exp log_alpha) (map exp ll)"
proof -
  define m where "m = map2 (\<lambda>a row. map (lf_add a) row) log_alpha log_A"
  have rows: "length (log_A ! i) = N" if "i < N" for i
    using N that by (simp add: list_all_length)
  have len_m: "length m = N" using N by (simp add: m_def)
  have m_nth: "m ! i = map (lf_add (log_alpha ! i)) (log_A ! i)" if "i < N" for i
    using N that by (simp add: m_def)
  have "transpose m = map (\<lambda>j. map (\<lambda>i. m ! i ! j) [0..<length m]) [0..<N]"
    by (rule transpose_rectangle) (use len_m m_nth rows in auto)
  then have axis0: "logsumexp_axis0 m
      = map (\<lambda>j. logsumexp (map (\<lambda>i. lf_add (log_alpha ! i) (log_A ! i ! j)) [0..<N])) [0..<N]"
  proof -
    have e: "m ! i ! j = lf_add (log_alpha ! i) (log_A ! i ! j)" if "i < N" "j < N" for i j
      using that m_nth rows by simp
    have "map (\<lambda>j. map (\<lambda>i. m ! i ! j) [0..<N]) [0..<N]
        = map (\<lambda>j. map (\<lambda>i. lf_add (log_alpha ! i) (log_A ! i ! j)) [0..<N]) [0..<N]"
      by (intro map_cong refl) (simp_all add: e)
    with \<open>transpose m = _\<close> len_m show ?thesis
      by (simp add: logsumexp_axis0_def comp_def)
  qed
  define out where "out = map2 lf_add (logsumexp_axis0 m) (map Finite ll)"
  have len_out: "length out = N" using N by (simp add: out_def axis0)
  have "map lf_exp out
      = forward_step (map (map lf_exp) log_A) (map lf_exp log_alpha) (map exp ll)"
  proof (rule nth_equalityI)
    show "length (map lf_exp out)
        = length (forward_step (map (map lf_exp) log_A) (map lf_exp log_alpha) (map exp ll))"
      using len_out N by (simp add: forward_step_def)
  next
    fix j assume "j < length (map lf_exp out)"
    then have j: "j < N" using len_out by simp
    have "lf_exp (out ! j)
        = (\<Sum>i\<leftarrow>[0..<N]. lf_exp (log_alpha ! i) * lf_exp (log_A ! i ! j)) * exp (ll ! j)"
      using j N by (simp add: out_def axis0 lf_exp_add lf_exp_logsumexp comp_def)
    also have "(\<Sum>i\<leftarrow>[0..<N]. lf_exp (log_alpha ! i) * lf_exp (log_A ! i ! j))
        = (\<Sum>i\<leftarrow>[0..<N]. map lf_exp log_alpha ! i * map (map lf_exp) log_A ! i ! j)"
      using j N rows by (intro arg_cong[where f = sum_list] map_cong refl) simp
    finally show "map lf_exp out ! j
        = forward_step (map (map lf_exp) log_A) (map lf_exp log_alpha) (map exp ll) ! j"
      using j N len_out by (simp add: forward_step_def)
  qed
  moreover have "add_column log_alpha log_A = Inr m"
    using N by (simp add: add_column_def broadcast_def m_def)
  moreover have "add_vectors (logsumexp_axis0 m) (map Finite ll) = Inr out"
    using N by (simp add: add_vectors_def broadcast_def out_def axis0)
  ultimately show ?thesis using len_out by blast
qed


lemma brute_force_Nil: "brute_force p A [] = sum_list p"
  by (simp add: brute_force_def map_nth)

lemma forward_path_sum:
  assumes "map_py (\<lambda>y. log_likelihoods ns y etas) data = Inr lls"
    and "list_all (\<lambda>ll. length ll = N) lls"
    and "length log_alpha = N" and "length log_A = N"
    and "list_all (\<lambda>row. length row = N) log_A"
  shows "\<exists>out. forward ns log_A etas log_alpha data = Inr out \<and> length out = N \<and>
           sum_list (map lf_exp out)
             = brute_force (map lf_exp log_alpha) (map (map lf_exp) log_A) (map (map exp) lls)"
  using assms(1,2,3)
proof (induction data arbitrary: log_alpha lls)
  case Nil
  then show ?case by (simp add: brute_force_Nil)
next
  case (Cons y ys)
  from Cons.prems(1) obtain ll lls' where ll: "log_likelihoods ns y etas = Inr ll"
    and lls': "map_py (\<lambda>y. log_likelihoods ns y etas) ys = Inr lls'" and lls: "lls = ll # lls'"
    by (auto split: sum.splits)
  from Cons.prems(2) lls have len: "length ll = N" "list_all (\<lambda>ll. length ll = N) lls'"
    by simp_all
  from forward_code_step[OF Cons.prems(3) assms(4,5) len(1)] obtain m out where
    m: "add_column log_alpha log_A = Inr m"
    and out: "add_vectors (logsumexp_axis0 m) (map Finite ll) = Inr out" "length out = N"
    and step: "map lf_exp out
      = forward_step (map (map lf_exp) log_A) (map lf_exp log_alpha) (map exp ll)"
    by blast
  from Cons.IH[OF lls' len(2) out(2)] obtain res where
    res: "forward ns log_A etas out ys = Inr res" "length res = N"
      "sum_list (map lf_exp res)
        = brute_force (map lf_exp out) (map (map lf_exp) log_A) (map (map exp) lls')"
    by blast
  have "length (forward_step (map (map lf_exp) log_A) (map lf_exp log_alpha) (map exp ll))
      = length (map lf_exp log_alpha)"
    by (simp add: forward_step_def)
  from brute_force_step[OF this] step res(3) lls
  have "sum_list (map lf_exp res)
      = brute_force (map lf_exp log_alpha) (map (map lf_exp) log_A) (map (map exp) lls)"
    by simp
  with m ll out res show ?case by simp
qed

lemma hmm_path_sum:
  assumes "map_py (\<lambda>y. log_likelihoods ns y etas) data = Inr lls"
    and "list_all (\<lambda>ll. length ll = length log_pi) lls"
    and "length log_A = length log_pi"
    and "list_all (\<lambda>row. length row = length log_pi) log_A"
  shows "hmm_log_partition_function ns (log_pi, log_A, etas) data
    = Inr (log_of (brute_force (map lf_exp log_pi) (map (map lf_exp) log_A)
                     (map (map exp) lls)))"
proof -
  from forward_path_sum[OF assms(1,2) refl assms(3,4)] obtain out where
    "forward ns log_A etas log_pi data = Inr out"
    "sum_list (map lf_exp out)
      = brute_force (map lf_exp log_pi) (map (map lf_exp) log_A) (map (map exp) lls)"
    by blast
  then show ?thesis
    by (simp add: hmm_log_partition_function_def logsumexp_def log_of_def)
qed


lemma hmm_path_sum_example:
  "hmm_log_partition_function Gaussian_namespace
     ([Finite 0], [[Finite 0]], [[Array (Arr2 [[- 1 / 2]]), Array (Arr1 [0]), Array (Arr0 0)]])
     [Array (Arr1 [0])]
   = Inr (Finite 0)"
  by (simp add: hmm_log_partition_function_def Gaussian_namespace_def log_likelihoods_def
      Gaussian_statistic_def outer_def inner_def add_column_def add_vectors_def
      broadcast_def multiply_def pairs_def logsumexp_axis0_def logsumexp_def
      numeral_2_eq_2)

section \<open>Properties of the EM functions\<close>

lemma M_step_module: "M_step module_namespace stats = Inl (NameError ''max_likelihood'')"
  by (cases stats) (simp add: M_step_def module_namespace_def)

lemma log_likelihoods_module:
  "log_likelihoods module_namespace y etas = Inl (NameError ''statistic'')"
  by (simp add: log_likelihoods_def module_namespace_def)

lemma forward_module:
  "forward module_namespace log_A etas log_alpha data =
     (if data = [] then Inr log_alpha
      else (case add_column log_alpha log_A of
              Inl e \<Rightarrow> Inl e
            | Inr m \<Rightarrow> Inl (NameError ''statistic'')))"
  by (cases data) (simp_all add: log_likelihoods_module split: sum.splits)

lemma hmm_module:
  "hmm_log_partition_function module_namespace (log_pi, log_A, etas) data =
     (if data = [] then Inr (logsumexp log_pi)
      else (case add_column log_pi log_A of
              Inl e \<Rightarrow> Inl e
            | Inr m \<Rightarrow> Inl (NameError ''statistic'')))"
  by (simp add: hmm_log_partition_function_def forward_module split: sum.splits)

lemma EM_update_module: "\<exists>e. EM_update module_namespace dv obs data ps = Inl e"
  by (simp add: EM_update_def M_step_module split: sum.splits)


lemma Gaussian_natparam_standard:
  "obs_natparam Gaussian (Tuple [Array (Arr1 [0]), Array (Arr2 [[1]])])
   = Inr [Array (Arr2 [[- 1 / 2]]), Array (Arr1 [0]), Array (Arr0 0)]"
  by (simp add: obs_natparam_def Gaussian_def Gaussian_eta_def Gaussian_logZ_def linalg_eval)


lemma hmm_module_no_value:
  "hmm_log_partition_function module_namespace natural_params (y # ys) \<noteq> Inr v"
  by (cases natural_params) (simp add: hmm_module split: sum.splits)

lemma E_step_module_no_value:
  "E_step module_namespace dv obs ps (y # ys) \<noteq> Inr stats"
proof (cases "(module_namespace, dv, obs, ps, y # ys)" rule: E_step.cases)
  case (1 ns dv' obs' pi0 A thetas data)
  then have ps: "ps = Tuple [Array (Arr1 pi0), Array (Arr2 A), Tuple thetas]" by simp
  show ?thesis
  proof (cases "natural_parameters obs pi0 A thetas")
    case (Inl e)
    with ps show ?thesis by simp
  next
    case (Inr np)
    obtain e where "hmm_log_partition_function module_namespace np (y # ys) = Inl e"
      using hmm_module_no_value[of np y ys]
      by (cases "hmm_log_partition_function module_namespace np (y # ys)") auto
    with ps Inr show ?thesis by (simp add: grad_def)
  qed
qed simp_all

lemma EM_update_module_no_value: "EM_update module_namespace dv obs data ps \<noteq> Inr ps'"
  using EM_update_module[of dv obs data ps] by auto

text \<open>
  C1: with at least one observation, \<^verbatim>\<open>hmm_log_partition_function\<close> returns no value
  for any natural parameters, so that it cannot equal the logarithm of a sum over
  hidden-state paths; with two states and one observation it raises \<^verbatim>\<open>NameError\<close>
  for the unbound name \<^verbatim>\<open>statistic\<close>.
\<close>

theorem hmm_log_partition_function_unbound_statistic:
  "(\<forall>natural_params y ys v.
      hmm_log_partition_function module_namespace natural_params (y # ys) \<noteq> Inr v) \<and>
   hmm_log_partition_function module_namespace
     ([Finite 0, Finite 0], [[Finite 0, Finite 0], [Finite 0, Finite 0]],
      [[Array (Arr2 [[- 1 / 2]]), Array (Arr1 [0]), Array (Arr0 0)],
       [Array (Arr2 [[- 1 / 2]]), Array (Arr1 [1]), Array (Arr0 0)]])
     [Array (Arr1 [0])]
   = Inl (NameError ''statistic'')"
  by (simp add: hmm_module hmm_module_no_value add_column_def broadcast_def)

text \<open>
  C9: with \<^verbatim>\<open>log_pi\<close> all \<^verbatim>\<open>-inf\<close> and one observation,
  \<^verbatim>\<open>hmm_log_partition_function\<close> raises \<^verbatim>\<open>NameError\<close> and does not return \<^verbatim>\<open>-inf\<close>.
\<close>

theorem hmm_log_partition_function_neg_inf:
  "hmm_log_partition_function module_namespace
     ([NegInf, NegInf], [[Finite 0, Finite 0], [Finite 0, Finite 0]],
      [[Array (Arr2 [[- 1 / 2]]), Array (Arr1 [0]), Array (Arr0 0)],
       [Array (Arr2 [[- 1 / 2]]), Array (Arr1 [1]), Array (Arr0 0)]])
     [Array (Arr1 [0])]
   = Inl (NameError ''statistic'') \<and>
   hmm_log_partition_function module_namespace
     ([NegInf, NegInf], [[Finite 0, Finite 0], [Finite 0, Finite 0]],
      [[Array (Arr2 [[- 1 / 2]]), Array (Arr1 [0]), Array (Arr0 0)],
       [Array (Arr2 [[- 1 / 2]]), Array (Arr1 [1]), Array (Arr0 0)]])
     []
   = Inr NegInf"
  by (simp add: hmm_module logsumexp_def add_column_def broadcast_def)

text \<open>
  C2: with at least one observation, \<^verbatim>\<open>E_step\<close> returns no expected statistics for
  any parameters and any family; with a standard Gaussian state and one observation
  it raises \<^verbatim>\<open>NameError\<close> for the unbound name \<^verbatim>\<open>statistic\<close>.
\<close>

theorem E_step_unbound_statistic:
  "(\<forall>dv obs ps y ys stats. E_step module_namespace dv obs ps (y # ys) \<noteq> Inr stats) \<and>
   E_step module_namespace zero_gradient Gaussian
     (params [1] [[1]] [Tuple [Array (Arr1 [0]), Array (Arr2 [[1]])]])
     [Array (Arr1 [0])]
   = Inl (NameError ''statistic'')"
  by (simp add: params_def natural_parameters_def np_log_def Gaussian_natparam_standard
      grad_def hmm_module E_step_module_no_value add_column_def broadcast_def)

text \<open>
  C10: the update \<^verbatim>\<open>M_step(E_step(params, data))\<close> produces no iterate for any
  parameters, data and family, so that there are no successive iterates whose
  log-likelihoods could be compared; with a standard Gaussian state it raises
  \<^verbatim>\<open>NameError\<close> for \<^verbatim>\<open>statistic\<close> when there are observations and for
  \<^verbatim>\<open>max_likelihood\<close> when there is none.
\<close>

theorem EM_update_unbound_names:
  "(\<forall>dv obs data ps ps'. EM_update module_namespace dv obs data ps \<noteq> Inr ps') \<and>
   EM_update module_namespace zero_gradient Gaussian [Array (Arr1 [0]), Array (Arr1 [1])]
     (params [1] [[1]] [Tuple [Array (Arr1 [0]), Array (Arr2 [[1]])]])
   = Inl (NameError ''statistic'') \<and>
   EM_update module_namespace zero_gradient Gaussian []
     (params [1] [[1]] [Tuple [Array (Arr1 [0]), Array (Arr2 [[1]])]])
   = Inl (NameError ''max_likelihood'')"
proof -
  have "EM_update module_namespace zero_gradient Gaussian [Array (Arr1 [0]), Array (Arr1 [1])]
     (params [1] [[1]] [Tuple [Array (Arr1 [0]), Array (Arr2 [[1]])]])
   = Inl (NameError ''statistic'')"
    by (simp add: EM_update_def params_def natural_parameters_def np_log_def
        Gaussian_natparam_standard grad_def hmm_module add_column_def broadcast_def)
  moreover have "EM_update module_namespace zero_gradient Gaussian []
     (params [1] [[1]] [Tuple [Array (Arr1 [0]), Array (Arr2 [[1]])]])
   = Inl (NameError ''max_likelihood'')"
    by (simp add: EM_update_def params_def natural_parameters_def np_log_def
        Gaussian_natparam_standard grad_def hmm_module M_step_module)
  ultimately show ?thesis
    by (simp add: EM_update_module_no_value)
qed





end
